theory Spec2Isabelle
  imports Main "HOL-Library.AList" "HOL-Library.Multiset"
begin

section \<open>Issue store helpers: bucket keys, set differences, action planning, filtering\<close>

text \<open>
  A shallow embedding of the issue helper module (\<^verbatim>\<open>src/unnamed/part_000\<close>):
  \<^verbatim>\<open>getGroupKey\<close>, \<^verbatim>\<open>getSubGroupIssueKeyActions\<close>, \<^verbatim>\<open>getDifference\<close>,
  \<^verbatim>\<open>checkIssueDateFilter\<close> and \<^verbatim>\<open>getFilteredIssues\<close>. JavaScript strings are
  \<^typ>\<open>string\<close>; an optional argument is an \<^typ>\<open>string option\<close> with \<^term>\<open>None\<close> for
  \<^verbatim>\<open>undefined\<close>.
\<close>

subsection \<open>JavaScript values\<close>

text \<open>
  Truthiness of an optional string, as \<^verbatim>\<open>if (groupId)\<close> tests it: \<^verbatim>\<open>undefined\<close> and
  the empty string are falsy, every other string is truthy.
\<close>

definition truthy :: "string option \<Rightarrow> bool" where
  "truthy v = (case v of None \<Rightarrow> False | Some s \<Rightarrow> s \<noteq> [])"

text \<open>
  Modelled from the spec: the enum \<^verbatim>\<open>EIssueGroupedAction\<close> is declared in
  \<^verbatim>\<open>./base-issues.store\<close>, which is not among the sources. The module uses its members
  \<^verbatim>\<open>ADD\<close> and \<^verbatim>\<open>DELETE\<close> as action kinds and as the two keys of a difference; a
  supplied member is a truthy value (the spec: "if restrictTo is supplied, the result
  must contain only that action's list").
\<close>

datatype EIssueGroupedAction = ADD | DELETE

text \<open>
  The object type \<^verbatim>\<open>{ [ADD]: string[]; [DELETE]: string[] }\<close>: one list per key, read
  as \<^verbatim>\<open>groupActionsArray[EIssueGroupedAction.ADD]\<close>, here \<open>groupActionsArray ADD\<close>.
\<close>

type_synonym grouped_values = "EIssueGroupedAction \<Rightarrow> string list"

definition grouped :: "string list \<Rightarrow> string list \<Rightarrow> grouped_values" where
  "grouped add del = (\<lambda>k. case k of ADD \<Rightarrow> add | DELETE \<Rightarrow> del)"

text \<open>The element type of the planners' result, \<^verbatim>\<open>{ path: string[]; action }\<close>.\<close>

record issue_key_action =
  path :: "string list"
  action :: EIssueGroupedAction

text \<open>
  A JavaScript object used as a dictionary (\<^verbatim>\<open>{ [key: string]: ... }\<close>) is the list of
  its own properties in creation order. The assignment \<^verbatim>\<open>obj[k] = v\<close> replaces the
  value of an existing property where it stands and appends a new property at the end
  (\<^term>\<open>AList.update k v obj\<close>), but for the key \<^verbatim>\<open>__proto__\<close>: there the assignment
  calls the setter that every object literal inherits, which sets the prototype and
  creates no own property.

  \<^verbatim>\<open>Object.values\<close> lists the values of the own properties in property order: first the properties whose key
  is an array index (the canonical decimal numeral of an integer from 0 to 2^32 - 2) in
  ascending numeric order, then all others in creation order.
\<close>

type_synonym 'v js_object = "(string \<times> 'v) list"

definition object_assign :: "string \<Rightarrow> 'v \<Rightarrow> 'v js_object \<Rightarrow> 'v js_object" where
  "object_assign k v obj = (if k = ''__proto__'' then obj else AList.update k v obj)"

definition is_digit :: "char \<Rightarrow> bool" where
  "is_digit c = (48 \<le> (of_char c :: nat) \<and> (of_char c :: nat) \<le> 57)"

definition dec_val :: "string \<Rightarrow> nat" where
  "dec_val s = foldl (\<lambda>n c. 10 * n + (of_char c - 48)) 0 s"

definition is_array_index :: "string \<Rightarrow> bool" where
  "is_array_index s =
     (s \<noteq> [] \<and> list_all is_digit s \<and> (length s = 1 \<or> hd s \<noteq> CHR ''0'')
      \<and> dec_val s < 4294967295)"

definition object_values :: "'v js_object \<Rightarrow> 'v list" where
  "object_values obj =
     map snd (sort_key (\<lambda>p. dec_val (fst p)) (filter (\<lambda>p. is_array_index (fst p)) obj)
              @ filter (\<lambda>p. \<not> is_array_index (fst p)) obj)"

text \<open>
  Reading an array position, \<^verbatim>\<open>p[i]\<close>: \<^verbatim>\<open>undefined\<close> beyond the end.
\<close>

definition at_index :: "'a list \<Rightarrow> nat \<Rightarrow> 'a option" where
  "at_index xs i = (if i < length xs then Some (xs ! i) else None)"

text \<open>
  lodash's \<^verbatim>\<open>uniq\<close> (an external library): the values of the array without
  duplicates, each at its first occurrence.
\<close>

definition uniq :: "'a list \<Rightarrow> 'a list" where
  "uniq xs = foldl (\<lambda>result v. if v \<in> set result then result else result @ [v]) [] xs"

subsection \<open>The key composer\<close>

text \<open>
  \<^verbatim>\<open>getGroupKey(groupId?, subGroupId?)\<close>. The constant \<^verbatim>\<open>ALL_ISSUES\<close> comes from
  \<^verbatim>\<open>@plane/constants\<close>, which is not among the sources: it is the first parameter.
\<close>

definition getGroupKey :: "string \<Rightarrow> string option \<Rightarrow> string option \<Rightarrow> string" where
  "getGroupKey ALL_ISSUES groupId subGroupId =
     (if truthy groupId \<and> truthy subGroupId \<and> subGroupId \<noteq> Some ''null''
      then the groupId @ ''_'' @ the subGroupId
      else if truthy groupId then the groupId
      else ALL_ISSUES)"

text \<open>The key of a path: the composer applied to the path's first two positions.\<close>

definition path_key :: "string \<Rightarrow> string list \<Rightarrow> string" where
  "path_key ALL_ISSUES p = getGroupKey ALL_ISSUES (at_index p 0) (at_index p 1)"

subsection \<open>The two-dimension action planner\<close>

text \<open>
  \<^verbatim>\<open>getSubGroupIssueKeyActions\<close>: four nested loops assign into the object
  \<^verbatim>\<open>issueKeyActions\<close>, whose values are returned. Each loop nest is a \<^term>\<open>fold\<close> of a
  \<^term>\<open>fold\<close> over the accumulated object.
\<close>

definition getSubGroupIssueKeyActions ::
  "string \<Rightarrow> grouped_values \<Rightarrow> grouped_values \<Rightarrow> string list \<Rightarrow> string list
   \<Rightarrow> string list \<Rightarrow> string list \<Rightarrow> issue_key_action list" where
  "getSubGroupIssueKeyActions ALL_ISSUES groupActionsArray subGroupActionsArray
      previousIssueGroupProperties currentIssueGroupProperties
      previousIssueSubGroupProperties currentIssueSubGroupProperties =
     (let issueKeyActions = [];
          issueKeyActions =
            fold (\<lambda>addKey. fold (\<lambda>subGroupProperty.
                    object_assign (getGroupKey ALL_ISSUES (Some addKey) (Some subGroupProperty))
                      \<lparr>path = [addKey, subGroupProperty], action = ADD\<rparr>)
                    currentIssueSubGroupProperties)
              (groupActionsArray ADD) issueKeyActions;
          issueKeyActions =
            fold (\<lambda>deleteKey. fold (\<lambda>subGroupProperty.
                    object_assign (getGroupKey ALL_ISSUES (Some deleteKey) (Some subGroupProperty))
                      \<lparr>path = [deleteKey, subGroupProperty], action = DELETE\<rparr>)
                    previousIssueSubGroupProperties)
              (groupActionsArray DELETE) issueKeyActions;
          issueKeyActions =
            fold (\<lambda>addKey. fold (\<lambda>groupProperty.
                    object_assign (getGroupKey ALL_ISSUES (Some groupProperty) (Some addKey))
                      \<lparr>path = [groupProperty, addKey], action = ADD\<rparr>)
                    currentIssueGroupProperties)
              (subGroupActionsArray ADD) issueKeyActions;
          issueKeyActions =
            fold (\<lambda>deleteKey. fold (\<lambda>groupProperty.
                    object_assign (getGroupKey ALL_ISSUES (Some groupProperty) (Some deleteKey))
                      \<lparr>path = [groupProperty, deleteKey], action = DELETE\<rparr>)
                    previousIssueGroupProperties)
              (subGroupActionsArray DELETE) issueKeyActions
      in object_values issueKeyActions)"

subsection \<open>The set differ\<close>

text \<open>
  \<^verbatim>\<open>getDifference(current, previous, action?)\<close>: two loops push onto \<^verbatim>\<open>ADD\<close> and
  \<^verbatim>\<open>DELETE\<close> the values the other array does not include; without an action both
  arrays are returned as they are, with an action only that action's array, through
  \<^verbatim>\<open>uniq\<close>, and the other one empty.
\<close>

definition getDifference ::
  "string list \<Rightarrow> string list \<Rightarrow> EIssueGroupedAction option \<Rightarrow> grouped_values" where
  "getDifference current previous act =
     (let ADD_array = foldl (\<lambda>acc currentValue.
                         if currentValue \<in> set previous then acc else acc @ [currentValue])
                       [] current;
          DELETE_array = foldl (\<lambda>acc previousValue.
                         if previousValue \<in> set current then acc else acc @ [previousValue])
                       [] previous
      in case act of
           None \<Rightarrow> grouped ADD_array DELETE_array
         | Some ADD \<Rightarrow> grouped (uniq ADD_array) []
         | Some DELETE \<Rightarrow> grouped [] (uniq DELETE_array))"

subsection \<open>The filter evaluator\<close>

text \<open>
  An issue is read only through \<^verbatim>\<open>issue[key]\<close>: it is a map from field names to
  values, \<^term>\<open>None\<close> for a field that is \<^verbatim>\<open>undefined\<close>. The values the filters meet
  are \<^verbatim>\<open>null\<close>, a string and an array of strings.
\<close>

datatype issue_value = Null | Single string | Multi "string list"

type_synonym TIssue = "string \<Rightarrow> issue_value option"

text \<open>
  \<^verbatim>\<open>checkIssueDateFilter(issue, filterKey, dateFilters)\<close>. The helpers
  \<^verbatim>\<open>parseDateFilter\<close> and \<^verbatim>\<open>checkDateCriteria\<close> come from
  \<^verbatim>\<open>@/helpers/date-time.helper\<close>, which is not among the sources: they are parameters,
  as is \<^verbatim>\<open>new Date(issueDate)\<close> (\<open>newDate\<close>). \<open>parseDateFilter\<close> returns the pair
  \<open>(type, date)\<close>. The test \<^verbatim>\<open>!issueDate\<close> holds of \<^verbatim>\<open>undefined\<close>, of \<^verbatim>\<open>null\<close> and
  of the empty string.
\<close>

definition checkIssueDateFilter ::
  "(string \<Rightarrow> 'ty \<times> 'd) \<Rightarrow> ('dt \<Rightarrow> 'd \<Rightarrow> 'ty \<Rightarrow> bool) \<Rightarrow> (issue_value \<Rightarrow> 'dt)
   \<Rightarrow> TIssue \<Rightarrow> string \<Rightarrow> string list option \<Rightarrow> bool" where
  "checkIssueDateFilter parseDateFilter checkDateCriteria newDate issue filterKey dateFilters =
     (case dateFilters of
        None \<Rightarrow> True
      | Some dfs \<Rightarrow>
          if length dfs = 0 then True
          else (case issue filterKey of
                  None \<Rightarrow> False
                | Some issueDate \<Rightarrow>
                    if issueDate = Null \<or> issueDate = Single [] then False
                    else list_all (\<lambda>filterValue.
                           case parseDateFilter filterValue of
                             (type, date) \<Rightarrow> checkDateCriteria (newDate issueDate) date type)
                           dfs))"

text \<open>
  The display filters are read only through \<^verbatim>\<open>displayFilters?.sub_issue\<close>.
\<close>

record IIssueDisplayFilterOptions =
  sub_issue :: "bool option"

text \<open>
  \<^verbatim>\<open>getFilteredIssues(issues, filters, displayFilters)\<close>. The filters object is given
  by its entries (\<^verbatim>\<open>Object.entries(filters)\<close>), each value a list of strings or
  \<^verbatim>\<open>null\<close>/\<^verbatim>\<open>undefined\<close> (\<^term>\<open>None\<close>); the active filters are the entries with a
  non-empty list. The table \<^verbatim>\<open>FILTER_TO_ISSUE_MAP\<close> comes from \<^verbatim>\<open>@/constants/issue\<close>,
  which is not among the sources: it is the first parameter, a partial map from filter
  keys to issue field names.
\<close>

definition getFilteredIssues ::
  "(string \<Rightarrow> string option)
   \<Rightarrow> (string \<Rightarrow> 'ty \<times> 'd) \<Rightarrow> ('dt \<Rightarrow> 'd \<Rightarrow> 'ty \<Rightarrow> bool) \<Rightarrow> (issue_value \<Rightarrow> 'dt)
   \<Rightarrow> TIssue list \<Rightarrow> (string \<times> string list option) list option
   \<Rightarrow> IIssueDisplayFilterOptions option \<Rightarrow> TIssue list" where
  "getFilteredIssues FILTER_TO_ISSUE_MAP parseDateFilter checkDateCriteria newDate
      issues filters displayFilters =
     (case filters of
        None \<Rightarrow> issues
      | Some entries \<Rightarrow>
          let activeFilters =
                List.map_filter (\<lambda>(filterKey, v).
                    case v of None \<Rightarrow> None
                    | Some vs \<Rightarrow> if length vs > 0 then Some (filterKey, vs) else None)
                  entries
          in filter (\<lambda>issue.
               if issue ''parent_id'' \<noteq> Some Null
                  \<and> (case displayFilters of None \<Rightarrow> False
                      | Some df \<Rightarrow> sub_issue df = Some False)
               then False
               else if length activeFilters = 0 then True
               else list_all (\<lambda>(filterKey, filterValues).
                      if filterKey = ''start_date'' \<or> filterKey = ''target_date''
                      then checkIssueDateFilter parseDateFilter checkDateCriteria newDate
                             issue filterKey (Some filterValues)
                      else case FILTER_TO_ISSUE_MAP filterKey of
                             None \<Rightarrow> True
                           | Some issueKey \<Rightarrow>
                               if issueKey = [] then True
                               else (case issue issueKey of
                                       Some (Multi issueValue) \<Rightarrow>
                                         list_ex (\<lambda>filterValue. filterValue \<in> set issueValue)
                                           filterValues
                                     | Some (Single issueValue) \<Rightarrow>
                                         issueValue \<in> set filterValues
                                     | _ \<Rightarrow> False))
                      activeFilters)
               issues)"

subsection \<open>Predicates for stating the evaluator's behaviour\<close>

text \<open>
  An issue is a hidden sub-item when its parent reference is not \<^verbatim>\<open>null\<close> and the display
  filters say \<^verbatim>\<open>sub_issue === false\<close>.
\<close>

definition hidden_sub_issue :: "TIssue \<Rightarrow> IIssueDisplayFilterOptions option \<Rightarrow> bool" where
  "hidden_sub_issue issue displayFilters =
     (issue ''parent_id'' \<noteq> Some Null
      \<and> (\<exists>df. displayFilters = Some df \<and> sub_issue df = Some False))"

text \<open>
  What one active filter field \<open>k\<close> with the non-empty value list \<open>vs\<close> asks of an issue:
  a date field asks the date check; a categorical field with a mapped attribute asks
  that the attribute's single value is one of \<open>vs\<close>, or that its list of values holds
  one of \<open>vs\<close>; a field with no mapped attribute asks nothing.
\<close>

definition field_passes ::
  "(string \<Rightarrow> string option)
   \<Rightarrow> (string \<Rightarrow> 'ty \<times> 'd) \<Rightarrow> ('dt \<Rightarrow> 'd \<Rightarrow> 'ty \<Rightarrow> bool) \<Rightarrow> (issue_value \<Rightarrow> 'dt)
   \<Rightarrow> TIssue \<Rightarrow> string \<Rightarrow> string list \<Rightarrow> bool" where
  "field_passes FILTER_TO_ISSUE_MAP parseDateFilter checkDateCriteria newDate issue k vs =
     (if k = ''start_date'' \<or> k = ''target_date''
      then checkIssueDateFilter parseDateFilter checkDateCriteria newDate issue k (Some vs)
      else case FILTER_TO_ISSUE_MAP k of
             None \<Rightarrow> True
           | Some a \<Rightarrow>
               a = [] \<or> (\<exists>s. issue a = Some (Single s) \<and> s \<in> set vs)
                      \<or> (\<exists>l. issue a = Some (Multi l) \<and> set vs \<inter> set l \<noteq> {}))"

subsection \<open>The planner's assignments in program order\<close>

text \<open>
  Assigning a list of key-value pairs to an object, first to last.
\<close>

definition assign_all :: "(string \<times> 'v) list \<Rightarrow> 'v js_object \<Rightarrow> 'v js_object" where
  "assign_all ws obj = fold (\<lambda>(k, v). object_assign k v) ws obj"

text \<open>
  The pairs that the four loop nests of \<^verbatim>\<open>getSubGroupIssueKeyActions\<close> assign, in the
  order in which they assign them.
\<close>

definition planned_assignments ::
  "string \<Rightarrow> grouped_values \<Rightarrow> grouped_values \<Rightarrow> string list \<Rightarrow> string list
   \<Rightarrow> string list \<Rightarrow> string list \<Rightarrow> (string \<times> issue_key_action) list" where
  "planned_assignments ALL_ISSUES groupActionsArray subGroupActionsArray
      previousIssueGroupProperties currentIssueGroupProperties
      previousIssueSubGroupProperties currentIssueSubGroupProperties =
     concat (map (\<lambda>g. map (\<lambda>s. (getGroupKey ALL_ISSUES (Some g) (Some s),
                                 \<lparr>path = [g, s], action = ADD\<rparr>))
                         currentIssueSubGroupProperties)
               (groupActionsArray ADD))
     @ concat (map (\<lambda>g. map (\<lambda>s. (getGroupKey ALL_ISSUES (Some g) (Some s),
                                 \<lparr>path = [g, s], action = DELETE\<rparr>))
                         previousIssueSubGroupProperties)
               (groupActionsArray DELETE))
     @ concat (map (\<lambda>s. map (\<lambda>g. (getGroupKey ALL_ISSUES (Some g) (Some s),
                                 \<lparr>path = [g, s], action = ADD\<rparr>))
                         currentIssueGroupProperties)
               (subGroupActionsArray ADD))
     @ concat (map (\<lambda>s. map (\<lambda>g. (getGroupKey ALL_ISSUES (Some g) (Some s),
                                 \<lparr>path = [g, s], action = DELETE\<rparr>))
                         previousIssueGroupProperties)
               (subGroupActionsArray DELETE))"

section \<open>Properties\<close>

subsection \<open>The loops of the set differ and of \<open>uniq\<close>\<close>

lemma foldl_push_filter:
  "foldl (\<lambda>acc v. if P v then acc else acc @ [v]) acc xs = acc @ filter (\<lambda>v. \<not> P v) xs"
  by (induction xs arbitrary: acc) simp_all

lemma getDifference_None_ADD:
  "getDifference current previous None ADD = filter (\<lambda>v. v \<notin> set previous) current"
  by (simp add: getDifference_def grouped_def foldl_push_filter)

lemma getDifference_None_DELETE:
  "getDifference current previous None DELETE = filter (\<lambda>v. v \<notin> set current) previous"
  by (simp add: getDifference_def grouped_def foldl_push_filter)

lemma uniq_foldl_set:
  "set (foldl (\<lambda>result v. if v \<in> set result then result else result @ [v]) acc xs)
     = set acc \<union> set xs"
  by (induction xs arbitrary: acc) auto

lemma uniq_foldl_distinct:
  "distinct acc \<Longrightarrow>
   distinct (foldl (\<lambda>result v. if v \<in> set result then result else result @ [v]) acc xs)"
  by (induction xs arbitrary: acc) auto

lemma uniq_foldl_id:
  "distinct (acc @ xs) \<Longrightarrow>
   foldl (\<lambda>result v. if v \<in> set result then result else result @ [v]) acc xs = acc @ xs"
  by (induction xs arbitrary: acc) auto

lemma set_uniq: "set (uniq xs) = set xs"
  by (simp add: uniq_def uniq_foldl_set)

lemma distinct_uniq: "distinct (uniq xs)"
  by (simp add: uniq_def uniq_foldl_distinct)

lemma uniq_distinct_id: "distinct xs \<Longrightarrow> uniq xs = xs"
  using uniq_foldl_id [of "[]" xs] by (simp add: uniq_def)

lemma getDifference_Some_ADD:
  "getDifference current previous (Some ADD) ADD
     = uniq (filter (\<lambda>v. v \<notin> set previous) current)"
  "getDifference current previous (Some ADD) DELETE = []"
  by (simp_all add: getDifference_def grouped_def foldl_push_filter)

lemma getDifference_Some_DELETE:
  "getDifference current previous (Some DELETE) ADD = []"
  "getDifference current previous (Some DELETE) DELETE
     = uniq (filter (\<lambda>v. v \<notin> set current) previous)"
  by (simp_all add: getDifference_def grouped_def foldl_push_filter)

subsection \<open>Membership in the filtered list\<close>

lemma active_filters_member:
  "(k, vs) \<in> set (List.map_filter (\<lambda>(filterKey, v).
                    case v of None \<Rightarrow> None
                    | Some vs \<Rightarrow> if length vs > 0 then Some (filterKey, vs) else None) entries)
   \<longleftrightarrow> (k, Some vs) \<in> set entries \<and> vs \<noteq> []"
  by (force simp: List.map_filter_def split: option.splits if_splits)

lemma getFilteredIssues_member:
  "issue \<in> set (getFilteredIssues FILTER_TO_ISSUE_MAP parseDateFilter checkDateCriteria newDate
                  issues (Some entries) displayFilters)
   \<longleftrightarrow> issue \<in> set issues \<and> \<not> hidden_sub_issue issue displayFilters
       \<and> (\<forall>k vs. (k, Some vs) \<in> set entries \<and> vs \<noteq> [] \<longrightarrow>
            field_passes FILTER_TO_ISSUE_MAP parseDateFilter checkDateCriteria newDate issue k vs)"
proof -
  let ?act = "List.map_filter (\<lambda>(filterKey, v).
                    case v of None \<Rightarrow> None
                    | Some vs \<Rightarrow> if length vs > 0 then Some (filterKey, vs) else None) entries"
  have act: "\<And>k vs. (k, vs) \<in> set ?act \<longleftrightarrow> (k, Some vs) \<in> set entries \<and> vs \<noteq> []"
    by (rule active_filters_member)
  have empty: "?act = [] \<Longrightarrow> \<forall>k vs. \<not> ((k, Some vs) \<in> set entries \<and> vs \<noteq> [])"
    using act by (metis empty_iff list.set(1))
  let ?pred = "\<lambda>(filterKey, filterValues).
                      if filterKey = ''start_date'' \<or> filterKey = ''target_date''
                      then checkIssueDateFilter parseDateFilter checkDateCriteria newDate
                             issue filterKey (Some filterValues)
                      else case FILTER_TO_ISSUE_MAP filterKey of
                             None \<Rightarrow> True
                           | Some issueKey \<Rightarrow>
                               if issueKey = [] then True
                               else (case issue issueKey of
                                       Some (Multi issueValue) \<Rightarrow>
                                         list_ex (\<lambda>filterValue. filterValue \<in> set issueValue)
                                           filterValues
                                     | Some (Single issueValue) \<Rightarrow>
                                         issueValue \<in> set filterValues
                                     | _ \<Rightarrow> False)"
  have pred: "?pred (k, vs)
      = field_passes FILTER_TO_ISSUE_MAP parseDateFilter checkDateCriteria newDate issue k vs"
    for k vs
    by (auto simp: field_passes_def list_ex_iff split: option.splits issue_value.splits)
  have hid: "(issue ''parent_id'' \<noteq> Some Null
                  \<and> (case displayFilters of None \<Rightarrow> False
                      | Some df \<Rightarrow> sub_issue df = Some False)) = hidden_sub_issue issue displayFilters"
    by (auto simp: hidden_sub_issue_def split: option.splits)
  have "list_all ?pred ?act \<longleftrightarrow> (\<forall>q \<in> set ?act. ?pred q)"
    by (simp only: list_all_iff)
  also have "\<dots> \<longleftrightarrow> (\<forall>k vs. (k, vs) \<in> set ?act \<longrightarrow> ?pred (k, vs))"
    by fast
  also have "\<dots> \<longleftrightarrow> (\<forall>k vs. (k, Some vs) \<in> set entries \<and> vs \<noteq> [] \<longrightarrow>
            field_passes FILTER_TO_ISSUE_MAP parseDateFilter checkDateCriteria newDate issue k vs)"
    unfolding act pred ..
  finally have all: "list_all ?pred ?act \<longleftrightarrow> (\<forall>k vs. (k, Some vs) \<in> set entries \<and> vs \<noteq> [] \<longrightarrow>
            field_passes FILTER_TO_ISSUE_MAP parseDateFilter checkDateCriteria newDate issue k vs)" .
  show ?thesis
    unfolding getFilteredIssues_def option.case Let_def set_filter mem_Collect_eq hid all
    using empty by (cases "?act = []") auto
qed


lemma checkIssueDateFilter_missing:
  "dateFilters \<noteq> [] \<Longrightarrow> issue filterKey = None \<or> issue filterKey = Some Null \<Longrightarrow>
   \<not> checkIssueDateFilter parseDateFilter checkDateCriteria newDate issue filterKey (Some dateFilters)"
  by (auto simp: checkIssueDateFilter_def)

subsection \<open>The planner as a sequence of assignments\<close>

lemma inner_fold_assign:
  "fold (\<lambda>i. object_assign (K i) (V i)) inner = assign_all (map (\<lambda>i. (K i, V i)) inner)"
proof
  show "fold (\<lambda>i. object_assign (K i) (V i)) inner obj
          = assign_all (map (\<lambda>i. (K i, V i)) inner) obj" for obj
    by (induction inner arbitrary: obj) (simp_all add: assign_all_def)
qed

lemma assign_all_append: "assign_all (ws @ ws') obj = assign_all ws' (assign_all ws obj)"
  by (simp add: assign_all_def)

lemma outer_fold_assign:
  "fold (\<lambda>a. assign_all (F a)) outer obj = assign_all (concat (map F outer)) obj"
  by (induction outer arbitrary: obj) (simp_all add: assign_all_def)

lemma nested_fold_assign:
  "fold (\<lambda>a. fold (\<lambda>i. object_assign (K a i) (V a i)) inner) outer obj
     = assign_all (concat (map (\<lambda>a. map (\<lambda>i. (K a i, V a i)) inner) outer)) obj"
  by (simp add: inner_fold_assign outer_fold_assign)

lemma distinct_object_assign:
  "distinct (map fst obj) \<Longrightarrow> distinct (map fst (object_assign k v obj))"
  by (simp add: object_assign_def distinct_update)

lemma set_update_subset: "set (AList.update k v obj) \<subseteq> insert (k, v) (set obj)"
  by (induction obj) auto

lemma set_object_assign_subset: "set (object_assign k v obj) \<subseteq> insert (k, v) (set obj)"
  using set_update_subset [of k v obj] by (auto simp: object_assign_def)

lemma distinct_assign_all:
  "distinct (map fst obj) \<Longrightarrow> distinct (map fst (assign_all ws obj))"
  by (induction ws arbitrary: obj) (auto simp: assign_all_def distinct_object_assign)

lemma set_assign_all_subset: "set (assign_all ws obj) \<subseteq> set ws \<union> set obj"
proof (induction ws arbitrary: obj)
  case Nil
  then show ?case by (simp add: assign_all_def)
next
  case (Cons w ws)
  obtain k v where w: "w = (k, v)" by (cases w)
  have "set (assign_all (w # ws) obj) = set (assign_all ws (object_assign k v obj))"
    by (simp add: assign_all_def w)
  also have "\<dots> \<subseteq> set ws \<union> set (object_assign k v obj)"
    by (rule Cons.IH)
  also have "\<dots> \<subseteq> set (w # ws) \<union> set obj"
    using set_object_assign_subset [of k v obj] by (auto simp: w)
  finally show ?case .
qed

lemma assign_all_member:
  assumes "(k, v) \<in> set (assign_all ws [])"
  shows "(k, v) \<in> set ws"
  using assms set_assign_all_subset [of ws "[]"] by auto

lemma mset_object_order:
  "mset (sort_key (\<lambda>p. dec_val (fst p)) (filter (\<lambda>p. is_array_index (fst p)) obj)
          @ filter (\<lambda>p. \<not> is_array_index (fst p)) obj) = mset obj"
  by simp

lemma set_object_values: "set (object_values obj) = snd ` set obj"
  by (auto simp: object_values_def)

lemma distinct_object_values_keys:
  assumes d: "distinct (map fst obj)" and inv: "\<And>k v. (k, v) \<in> set obj \<Longrightarrow> f v = k"
  shows "distinct (map f (object_values obj))"
proof -
  let ?L = "sort_key (\<lambda>p. dec_val (fst p)) (filter (\<lambda>p. is_array_index (fst p)) obj)
          @ filter (\<lambda>p. \<not> is_array_index (fst p)) obj"
  have m: "mset ?L = mset obj" by (rule mset_object_order)
  then have s: "set ?L = set obj" by (rule mset_eq_setD)
  have a: "map f (map snd ?L) = map fst ?L"
    using inv s by (auto simp del: set_append)
  have "mset (map fst ?L) = mset (map fst obj)"
    using m by (metis mset_map)
  then have b: "distinct (map fst ?L)"
    using d by (metis distinct_count_atmost_1 set_mset_mset)
  show ?thesis unfolding object_values_def a by (rule b)
qed


lemma getSubGroupIssueKeyActions_assignments:
  "getSubGroupIssueKeyActions ALL_ISSUES gd sd pg cg ps cs
     = object_values (assign_all (planned_assignments ALL_ISSUES gd sd pg cg ps cs) [])"
  unfolding getSubGroupIssueKeyActions_def planned_assignments_def Let_def
    nested_fold_assign assign_all_append ..

lemma planned_assignments_member:
  "(k, v) \<in> set (planned_assignments ALL_ISSUES gd sd pg cg ps cs) \<longleftrightarrow>
     (\<exists>g s. k = getGroupKey ALL_ISSUES (Some g) (Some s) \<and>
        (v = \<lparr>path = [g, s], action = ADD\<rparr> \<and>
           (g \<in> set (gd ADD) \<and> s \<in> set cs \<or> s \<in> set (sd ADD) \<and> g \<in> set cg)
         \<or> v = \<lparr>path = [g, s], action = DELETE\<rparr> \<and>
           (g \<in> set (gd DELETE) \<and> s \<in> set ps \<or> s \<in> set (sd DELETE) \<and> g \<in> set pg)))"
  unfolding planned_assignments_def by auto

lemma path_key_pair: "path_key ALL_ISSUES [g, s] = getGroupKey ALL_ISSUES (Some g) (Some s)"
  by (simp add: path_key_def at_index_def)

lemma planned_assignments_key:
  "(k, v) \<in> set (planned_assignments ALL_ISSUES gd sd pg cg ps cs) \<Longrightarrow>
   path_key ALL_ISSUES (path v) = k"
  unfolding planned_assignments_member by (auto simp: path_key_pair)

lemmas planner_eval = getSubGroupIssueKeyActions_def getDifference_def grouped_def
  getGroupKey_def truthy_def object_values_def is_array_index_def is_digit_def dec_val_def
  uniq_def object_assign_def Let_def

subsection \<open>The key composer's contract\<close>

text \<open>
  Claim C9, as the code has it. \<^verbatim>\<open>getGroupKey\<close> is a total function of its two
  arguments (and of the sentinel): it returns \<open>groupId_subGroupId\<close> when both are
  supplied and non-empty and \<open>subGroupId\<close> is not the string \<open>null\<close>; else \<open>groupId\<close>
  when it is supplied and non-empty; else the sentinel. A supplied empty string counts
  as not supplied, since the tests are tests of truthiness.
\<close>

theorem getGroupKey_contract:
  "getGroupKey ALL_ISSUES groupId subGroupId =
     (case groupId of
        None \<Rightarrow> ALL_ISSUES
      | Some g \<Rightarrow>
          if g = [] then ALL_ISSUES
          else (case subGroupId of
                  None \<Rightarrow> g
                | Some s \<Rightarrow> if s = [] \<or> s = ''null'' then g else g @ ''_'' @ s))"
  by (simp add: getGroupKey_def truthy_def split: option.splits)

theorem getGroupKey_contract_witness:
  "getGroupKey ''All Issues'' (Some ''state'') (Some ''u1'') = ''state_u1''
   \<and> getGroupKey ''All Issues'' (Some ''state'') (Some ''null'') = ''state''
   \<and> getGroupKey ''All Issues'' (Some ''state'') None = ''state''
   \<and> getGroupKey ''All Issues'' None (Some ''u1'') = ''All Issues''"
  using getGroupKey_contract [of "''All Issues''" "Some ''state''" "Some ''u1''"]
        getGroupKey_contract [of "''All Issues''" "Some ''state''" "Some ''null''"]
        getGroupKey_contract [of "''All Issues''" "Some ''state''" "None"]
        getGroupKey_contract [of "''All Issues''" "None" "Some ''u1''"]
  by simp

text \<open>
  As claim C9 is worded, two supplied strings with a sub-group other than \<open>null\<close> give
  the compound key. With the empty string as sub-group the code returns the group alone,
  and with the empty string as group it returns the sentinel.
\<close>

theorem getGroupKey_empty_counterexample:
  "getGroupKey ''All Issues'' (Some ''g'') (Some '''') = ''g''
   \<and> getGroupKey ''All Issues'' (Some ''g'') (Some '''') \<noteq> ''g'' @ ''_'' @ ''''
   \<and> getGroupKey ''All Issues'' (Some '''') (Some ''s'') = ''All Issues''
   \<and> getGroupKey ''All Issues'' (Some '''') (Some ''s'') \<noteq> '''' @ ''_'' @ ''s''"
  by (simp add: getGroupKey_def truthy_def)

subsection \<open>The two-dimension action planner\<close>

text \<open>
  Claim C1. The loop's comment asks that the issue be added, for every added group
  value, at all current sub-group values. The planner evaluated where the claim fails:
  with the added groups \<open>B_x\<close> and \<open>B\<close> and the sub-groups \<open>y\<close> and \<open>x_y\<close>, the pairs
  \<open>(B_x, y)\<close> and \<open>(B, x_y)\<close> compose to the same key \<open>B_x_y\<close>, the later
  assignment replaces the earlier one, and the returned list has no action with path
  \<open>[B_x, y]\<close>; with the added group \<open>__proto__\<close> and the sub-group \<open>null\<close> the
  assignment creates no property and the returned list is empty. With group values
  going from \<open>[A]\<close> to \<open>[A, B]\<close> and sub-group values fixed at \<open>[x, y]\<close>, the returned
  list is the \<open>ADD\<close> actions for \<open>(B, x)\<close> and \<open>(B, y)\<close> and nothing else.
\<close>

theorem group_add_action_dropped:
  "''B_x'' \<in> set (getDifference [''A'', ''B_x'', ''B''] [''A''] None ADD)
   \<and> ''y'' \<in> set [''y'', ''x_y'']
   \<and> getSubGroupIssueKeyActions ''All Issues''
         (getDifference [''A'', ''B_x'', ''B''] [''A''] None)
         (getDifference [''y'', ''x_y''] [''y'', ''x_y''] None)
         [''A''] [''A'', ''B_x'', ''B''] [''y'', ''x_y''] [''y'', ''x_y'']
       = [\<lparr>path = [''B'', ''x_y''], action = ADD\<rparr>, \<lparr>path = [''B_x'', ''x_y''], action = ADD\<rparr>,
          \<lparr>path = [''B'', ''y''], action = ADD\<rparr>]
   \<and> \<lparr>path = [''B_x'', ''y''], action = ADD\<rparr>
       \<notin> set (getSubGroupIssueKeyActions ''All Issues''
                (getDifference [''A'', ''B_x'', ''B''] [''A''] None)
                (getDifference [''y'', ''x_y''] [''y'', ''x_y''] None)
                [''A''] [''A'', ''B_x'', ''B''] [''y'', ''x_y''] [''y'', ''x_y''])
   \<and> ''__proto__'' \<in> set (getDifference [''A'', ''__proto__''] [''A''] None ADD)
   \<and> getSubGroupIssueKeyActions ''All Issues''
         (getDifference [''A'', ''__proto__''] [''A''] None)
         (getDifference [''null''] [''null''] None)
         [''A''] [''A'', ''__proto__''] [''null''] [''null''] = []
   \<and> getSubGroupIssueKeyActions ''All Issues''
         (getDifference [''A'', ''B''] [''A''] None)
         (getDifference [''x'', ''y''] [''x'', ''y''] None)
         [''A''] [''A'', ''B''] [''x'', ''y''] [''x'', ''y'']
       = [\<lparr>path = [''B'', ''x''], action = ADD\<rparr>, \<lparr>path = [''B'', ''y''], action = ADD\<rparr>]"
  by (simp add: planner_eval)

text \<open>
  Claim C2. For every input, the composed keys of the paths of the returned actions are
  pairwise distinct; hence so are the paths, and the actions themselves: the returned
  list holds at most one entry per bucket key and per bucket path.
\<close>

theorem actions_distinct_keys:
  "distinct (map (\<lambda>a. path_key ALL_ISSUES (path a))
      (getSubGroupIssueKeyActions ALL_ISSUES gd sd pg cg ps cs))
   \<and> distinct (map path (getSubGroupIssueKeyActions ALL_ISSUES gd sd pg cg ps cs))
   \<and> distinct (getSubGroupIssueKeyActions ALL_ISSUES gd sd pg cg ps cs)"
proof -
  let ?ws = "planned_assignments ALL_ISSUES gd sd pg cg ps cs"
  let ?obj = "assign_all ?ws []"
  have d: "distinct (map fst ?obj)"
    by (rule distinct_assign_all) simp
  have k: "distinct (map (\<lambda>a. path_key ALL_ISSUES (path a)) (object_values ?obj))"
    using d
  proof (rule distinct_object_values_keys)
    fix k v
    assume "(k, v) \<in> set ?obj"
    then have "(k, v) \<in> set ?ws" by (rule assign_all_member)
    then show "path_key ALL_ISSUES (path v) = k" by (rule planned_assignments_key)
  qed
  have "map (\<lambda>a. path_key ALL_ISSUES (path a)) (object_values ?obj)
          = map (path_key ALL_ISSUES) (map path (object_values ?obj))"
    by simp
  with k have p: "distinct (map path (object_values ?obj))"
    by (metis distinct_map)
  then have "distinct (object_values ?obj)"
    by (metis distinct_map)
  with k p show ?thesis
    unfolding getSubGroupIssueKeyActions_assignments by simp
qed

theorem actions_distinct_keys_witness:
  "distinct (map (\<lambda>a. path_key ''All Issues'' (path a))
      (getSubGroupIssueKeyActions ''All Issues''
         (getDifference [''A'', ''B_x'', ''B''] [''A''] None)
         (getDifference [''y'', ''x_y''] [''y'', ''x_y''] None)
         [''A''] [''A'', ''B_x'', ''B''] [''y'', ''x_y''] [''y'', ''x_y'']))
   \<and> getSubGroupIssueKeyActions ''All Issues''
         (getDifference [''A'', ''B_x'', ''B''] [''A''] None)
         (getDifference [''y'', ''x_y''] [''y'', ''x_y''] None)
         [''A''] [''A'', ''B_x'', ''B''] [''y'', ''x_y''] [''y'', ''x_y'']
       = [\<lparr>path = [''B'', ''x_y''], action = ADD\<rparr>, \<lparr>path = [''B_x'', ''x_y''], action = ADD\<rparr>,
          \<lparr>path = [''B'', ''y''], action = ADD\<rparr>]"
proof (rule conjI)
  show "distinct (map (\<lambda>a. path_key ''All Issues'' (path a))
      (getSubGroupIssueKeyActions ''All Issues''
         (getDifference [''A'', ''B_x'', ''B''] [''A''] None)
         (getDifference [''y'', ''x_y''] [''y'', ''x_y''] None)
         [''A''] [''A'', ''B_x'', ''B''] [''y'', ''x_y''] [''y'', ''x_y'']))"
    by (rule actions_distinct_keys [THEN conjunct1])
  show "getSubGroupIssueKeyActions ''All Issues''
         (getDifference [''A'', ''B_x'', ''B''] [''A''] None)
         (getDifference [''y'', ''x_y''] [''y'', ''x_y''] None)
         [''A''] [''A'', ''B_x'', ''B''] [''y'', ''x_y''] [''y'', ''x_y'']
       = [\<lparr>path = [''B'', ''x_y''], action = ADD\<rparr>, \<lparr>path = [''B_x'', ''x_y''], action = ADD\<rparr>,
          \<lparr>path = [''B'', ''y''], action = ADD\<rparr>]"
    by (simp add: planner_eval)
qed

text \<open>
  Claim C3, as the code has it. For an issue whose previous and current sub-group value
  lists are both empty (so that the sub-group difference is empty too), the planner
  returns no action at all, whatever the group difference is: a removed group value is
  crossed with no sub-group value and yields no \<open>DELETE\<close> action. The key composer does
  treat an empty sub-group component as the group-only key.
\<close>

theorem empty_sub_groups_no_actions:
  "getSubGroupIssueKeyActions ALL_ISSUES gd (getDifference [] [] act) pg cg [] [] = []
   \<and> getGroupKey ALL_ISSUES (Some g) (Some []) = getGroupKey ALL_ISSUES (Some g) None"
proof -
  have e: "getDifference [] [] act k = []" for k
    by (cases k; cases act) (auto simp: getDifference_def grouped_def uniq_def split: EIssueGroupedAction.splits)
  have "planned_assignments ALL_ISSUES gd (getDifference [] [] act) pg cg [] [] = []"
    by (simp add: planned_assignments_def e)
  then show ?thesis
    by (simp add: getSubGroupIssueKeyActions_assignments assign_all_def object_values_def
        getGroupKey_def truthy_def)
qed

theorem empty_sub_groups_no_actions_witness:
  "getSubGroupIssueKeyActions ''All Issues''
     (getDifference [''B''] [''A''] None) (getDifference [] [] None) [''A''] [''B''] [] [] = []
   \<and> getGroupKey ''All Issues'' (Some ''A'') (Some []) = ''A''"
  using empty_sub_groups_no_actions [of "''All Issues''" "getDifference [''B''] [''A''] None"
      None "[''A'']" "[''B'']" "''A''"]
  by (simp add: getGroupKey_def truthy_def)

text \<open>
  As claim C3 is worded, a removed group value yields a \<open>DELETE\<close> action with an empty
  sub-group component. With the group \<open>A\<close> removed and no sub-group values, the returned
  list is empty.
\<close>

theorem removed_group_no_delete_counterexample:
  "getDifference [] [''A''] None DELETE = [''A'']
   \<and> getSubGroupIssueKeyActions ''All Issues''
        (getDifference [] [''A''] None) (getDifference [] [] None) [''A''] [] [] [] = []
   \<and> \<lparr>path = [''A'', []], action = DELETE\<rparr>
       \<notin> set (getSubGroupIssueKeyActions ''All Issues''
                (getDifference [] [''A''] None) (getDifference [] [] None) [''A''] [] [] [])"
  by (simp add: planner_eval)

subsection \<open>The set differ\<close>

text \<open>
  Claim C4, as the code has it. For the call without an action: \<open>ADD\<close> together with
  the common elements is \<open>current\<close>, and \<open>DELETE\<close> together with the common elements is
  \<open>previous\<close>; \<open>ADD\<close> together with \<open>previous\<close> is the union of both lists, and so is
  \<open>DELETE\<close> together with \<open>current\<close>; an element of exactly one of the two lists is in
  exactly one of \<open>ADD\<close> and \<open>DELETE\<close> (the one of its list), and no element is in both.
\<close>

theorem getDifference_completeness:
  "set (getDifference current previous None ADD) \<union> (set previous \<inter> set current) = set current
   \<and> set (getDifference current previous None DELETE) \<union> (set previous \<inter> set current) = set previous
   \<and> set (getDifference current previous None ADD) \<union> set previous = set current \<union> set previous
   \<and> set (getDifference current previous None DELETE) \<union> set current = set previous \<union> set current
   \<and> (x \<in> set current \<and> x \<notin> set previous \<longrightarrow>
        x \<in> set (getDifference current previous None ADD)
        \<and> x \<notin> set (getDifference current previous None DELETE))
   \<and> (x \<in> set previous \<and> x \<notin> set current \<longrightarrow>
        x \<in> set (getDifference current previous None DELETE)
        \<and> x \<notin> set (getDifference current previous None ADD))
   \<and> set (getDifference current previous None ADD)
        \<inter> set (getDifference current previous None DELETE) = {}"
  unfolding getDifference_None_ADD getDifference_None_DELETE by auto

theorem getDifference_completeness_witness:
  "set (getDifference [''u1'', ''u2''] [''u1'', ''u3''] None ADD) = {''u2''}
   \<and> set (getDifference [''u1'', ''u2''] [''u1'', ''u3''] None DELETE) = {''u3''}
   \<and> ''u2'' \<in> set [''u1'', ''u2''] \<and> ''u2'' \<notin> set [''u1'', ''u3'']
   \<and> ''u2'' \<in> set (getDifference [''u1'', ''u2''] [''u1'', ''u3''] None ADD)
   \<and> ''u2'' \<notin> set (getDifference [''u1'', ''u2''] [''u1'', ''u3''] None DELETE)"
  using getDifference_completeness [of "[''u1'', ''u2'']" "[''u1'', ''u3'']" "''u2''"]
  by (simp add: getDifference_def grouped_def)

text \<open>
  As claim C4 is worded, \<open>ADD \<union> previous\<close> would equal \<open>current \<union> (previous \<inter> current)\<close>,
  which is \<open>current\<close>. It does not when \<open>previous\<close> has an element that \<open>current\<close> lacks.
\<close>

theorem getDifference_completeness_counterexample:
  "set (getDifference [] [''a''] None ADD) \<union> set [''a'']
     \<noteq> set [] \<union> (set [''a''] \<inter> set [])"
  by (simp add: getDifference_def grouped_def)

text \<open>
  Claim C5, as the code has it. In every call form the returned \<open>ADD\<close> list holds only
  elements of \<open>current\<close> that \<open>previous\<close> does not include. Without an action it is the
  list of all such elements of \<open>current\<close> in order, duplicates kept, so it is free of
  duplicates when \<open>current\<close> is; with the action \<open>ADD\<close> it holds each such element once;
  with the action \<open>DELETE\<close> it is empty.
\<close>

theorem getDifference_ADD_forms:
  "set (getDifference current previous act ADD) \<subseteq> set current - set previous
   \<and> getDifference current previous None ADD = filter (\<lambda>v. v \<notin> set previous) current
   \<and> set (getDifference current previous (Some ADD) ADD) = set current - set previous
   \<and> distinct (getDifference current previous (Some ADD) ADD)
   \<and> getDifference current previous (Some DELETE) ADD = []
   \<and> (distinct current \<longrightarrow>
        distinct (getDifference current previous None ADD)
        \<and> getDifference current previous (Some ADD) ADD
            = getDifference current previous None ADD)"
proof -
  have "set (getDifference current previous act ADD) \<subseteq> set current - set previous"
  proof (cases act)
    case None
    then show ?thesis by (auto simp: getDifference_None_ADD)
  next
    case (Some a)
    then show ?thesis
      by (cases a) (auto simp: getDifference_Some_ADD getDifference_Some_DELETE set_uniq)
  qed
  moreover have "set (getDifference current previous (Some ADD) ADD) = set current - set previous"
    by (auto simp: getDifference_Some_ADD set_uniq)
  ultimately show ?thesis
    by (simp add: getDifference_None_ADD getDifference_Some_ADD getDifference_Some_DELETE
        distinct_uniq uniq_distinct_id)
qed

theorem getDifference_ADD_forms_witness:
  "distinct [''a'', ''b''] \<and> distinct (getDifference [''a'', ''b''] [''b''] None ADD)
   \<and> getDifference [''a'', ''b''] [''b''] (Some ADD) ADD = [''a'']
   \<and> getDifference [''a'', ''a'', ''b''] [''b''] (Some ADD) ADD = [''a'']"
  using getDifference_ADD_forms [of "[''a'', ''b'']" "[''b'']" None]
  by (simp add: getDifference_def grouped_def uniq_def)

text \<open>
  As claim C5 is worded, no element occurs twice in the returned \<open>ADD\<close> list in any call
  form. Without an action a duplicate of \<open>current\<close> stays a duplicate of \<open>ADD\<close>.
\<close>

theorem getDifference_duplicates_counterexample:
  "getDifference [''a'', ''a''] [] None ADD = [''a'', ''a'']
   \<and> \<not> distinct (getDifference [''a'', ''a''] [] None ADD)"
  by (simp add: getDifference_def grouped_def)

subsection \<open>The filter evaluator\<close>

text \<open>
  Claim C6. With a filters object, an issue of the input is in the result exactly when
  it is not a hidden sub-item and passes every active filter field (a conjunction over
  the fields), where a categorical field is passed when one of its allowed values is the
  issue's value (a disjunction over the values). For the filter
  \<open>{status: [done, cancelled], priority: [high]}\<close>, with both filter keys mapped to the
  issue attributes of the same name and an issue whose \<open>status\<close> and \<open>priority\<close> are
  single values, the issue is included exactly when, besides, its status is \<open>done\<close> or
  \<open>cancelled\<close> and its priority is \<open>high\<close>.
\<close>

theorem filter_and_or_law:
  "(issue \<in> set (getFilteredIssues FILTER_TO_ISSUE_MAP parseDateFilter checkDateCriteria newDate
                   issues (Some entries) displayFilters)
     \<longleftrightarrow> issue \<in> set issues \<and> \<not> hidden_sub_issue issue displayFilters
         \<and> (\<forall>k vs. (k, Some vs) \<in> set entries \<and> vs \<noteq> [] \<longrightarrow>
              field_passes FILTER_TO_ISSUE_MAP parseDateFilter checkDateCriteria newDate issue k vs))
   \<and> (FILTER_TO_ISSUE_MAP ''status'' = Some ''status''
        \<and> FILTER_TO_ISSUE_MAP ''priority'' = Some ''priority''
        \<and> issue ''status'' = Some (Single st) \<and> issue ''priority'' = Some (Single pr) \<longrightarrow>
        (issue \<in> set (getFilteredIssues FILTER_TO_ISSUE_MAP parseDateFilter checkDateCriteria newDate
                   issues
                   (Some [(''status'', Some [''done'', ''cancelled'']), (''priority'', Some [''high''])])
                   displayFilters)
         \<longleftrightarrow> issue \<in> set issues \<and> \<not> hidden_sub_issue issue displayFilters
             \<and> (st = ''done'' \<or> st = ''cancelled'') \<and> pr = ''high''))"
proof -
  let ?FP = "field_passes FILTER_TO_ISSUE_MAP parseDateFilter checkDateCriteria newDate issue"
  have two: "(\<forall>k vs. (k, Some vs) \<in> set [(k1, Some v1), (k2, Some v2)] \<and> vs \<noteq> [] \<longrightarrow> P k vs)
      \<longleftrightarrow> (v1 \<noteq> [] \<longrightarrow> P k1 v1) \<and> (v2 \<noteq> [] \<longrightarrow> P k2 v2)"
    for k1 k2 :: string and v1 v2 :: "string list" and P
    by auto
  have "issue \<in> set (getFilteredIssues FILTER_TO_ISSUE_MAP parseDateFilter checkDateCriteria newDate
                   issues
                   (Some [(''status'', Some [''done'', ''cancelled'']), (''priority'', Some [''high''])])
                   displayFilters)
         \<longleftrightarrow> issue \<in> set issues \<and> \<not> hidden_sub_issue issue displayFilters
             \<and> (st = ''done'' \<or> st = ''cancelled'') \<and> pr = ''high''"
    if m: "FILTER_TO_ISSUE_MAP ''status'' = Some ''status''"
      "FILTER_TO_ISSUE_MAP ''priority'' = Some ''priority''"
      and v: "issue ''status'' = Some (Single st)" "issue ''priority'' = Some (Single pr)"
  proof -
    have s: "?FP ''status'' [''done'', ''cancelled''] \<longleftrightarrow> st = ''done'' \<or> st = ''cancelled''"
      by (simp add: field_passes_def m v)
    have p: "?FP ''priority'' [''high''] \<longleftrightarrow> pr = ''high''"
      by (simp add: field_passes_def m v)
    show ?thesis
      unfolding getFilteredIssues_member two s p by simp
  qed
  then show ?thesis
    using getFilteredIssues_member by blast
qed

theorem filter_and_or_law_witness:
  "[''status'' \<mapsto> ''status'', ''priority'' \<mapsto> ''priority''] ''status'' = Some ''status''
   \<and> [''status'' \<mapsto> ''status'', ''priority'' \<mapsto> ''priority''] ''priority'' = Some ''priority''
   \<and> [''parent_id'' \<mapsto> Null, ''status'' \<mapsto> Single ''done'', ''priority'' \<mapsto> Single ''low'']
        ''status'' = Some (Single ''done'')
   \<and> [''parent_id'' \<mapsto> Null, ''status'' \<mapsto> Single ''done'', ''priority'' \<mapsto> Single ''low'']
        ''priority'' = Some (Single ''low'')
   \<and> [''parent_id'' \<mapsto> Null, ''status'' \<mapsto> Single ''done'', ''priority'' \<mapsto> Single ''low'']
      \<notin> set (getFilteredIssues [''status'' \<mapsto> ''status'', ''priority'' \<mapsto> ''priority'']
          (\<lambda>s. ((), ())) (\<lambda>d r t. True) (\<lambda>v. ())
          [[''parent_id'' \<mapsto> Null, ''status'' \<mapsto> Single ''done'', ''priority'' \<mapsto> Single ''low'']]
          (Some [(''status'', Some [''done'', ''cancelled'']), (''priority'', Some [''high''])])
          None)"
proof -
  let ?M = "[''status'' \<mapsto> ''status'', ''priority'' \<mapsto> ''priority'']"
  let ?i = "[''parent_id'' \<mapsto> Null, ''status'' \<mapsto> Single ''done'', ''priority'' \<mapsto> Single ''low'']"
  have h: "?M ''status'' = Some ''status''" "?M ''priority'' = Some ''priority''"
    "?i ''status'' = Some (Single ''done'')" "?i ''priority'' = Some (Single ''low'')"
    by simp_all
  have "?i \<notin> set (getFilteredIssues ?M (\<lambda>s. ((), ())) (\<lambda>d r t. True) (\<lambda>v. ()) [?i]
          (Some [(''status'', Some [''done'', ''cancelled'']), (''priority'', Some [''high''])])
          None)"
    using filter_and_or_law [of ?i ?M "\<lambda>s. ((), ())" "\<lambda>d r t. True" "\<lambda>v. ()" "[?i]"
        "[]" None "''done''" "''low''", THEN conjunct2, rule_format, OF conjI [OF h(1) conjI [OF h(2) conjI [OF h(3) h(4)]]]]
    by simp
  with h show ?thesis by blast
qed

text \<open>
  Claim C7, as the code has it. When a filters object is supplied, an issue whose parent
  reference is not \<^verbatim>\<open>null\<close> is excluded if \<open>sub_issue\<close> is \<open>false\<close>, whatever the filters
  and the date helpers are: the test comes first and no filter is consulted.
\<close>

theorem sub_issue_filter_first:
  "issue ''parent_id'' \<noteq> Some Null \<Longrightarrow> sub_issue df = Some False \<Longrightarrow>
   issue \<notin> set (getFilteredIssues FILTER_TO_ISSUE_MAP parseDateFilter checkDateCriteria newDate
                   issues (Some entries) (Some df))
   \<and> getFilteredIssues FILTER_TO_ISSUE_MAP parseDateFilter checkDateCriteria newDate
        [issue] (Some entries) (Some df) = []"
  by (simp add: getFilteredIssues_def Let_def)

theorem sub_issue_filter_first_witness:
  "[''parent_id'' \<mapsto> Single ''p1'', ''priority'' \<mapsto> Single ''high''] ''parent_id'' \<noteq> Some Null
   \<and> sub_issue \<lparr>sub_issue = Some False\<rparr> = Some False
   \<and> getFilteredIssues [''priority'' \<mapsto> ''priority''] (\<lambda>s. ((), ())) (\<lambda>d r t. True) (\<lambda>v. ())
        [[''parent_id'' \<mapsto> Single ''p1'', ''priority'' \<mapsto> Single ''high'']]
        (Some [(''priority'', Some [''high''])]) (Some \<lparr>sub_issue = Some False\<rparr>) = []
   \<and> getFilteredIssues [''priority'' \<mapsto> ''priority''] (\<lambda>s. ((), ())) (\<lambda>d r t. True) (\<lambda>v. ())
        [[''parent_id'' \<mapsto> Single ''p1'', ''priority'' \<mapsto> Single ''high'']]
        (Some [(''priority'', Some [''high''])]) (Some \<lparr>sub_issue = Some True\<rparr>) \<noteq> []"
  using sub_issue_filter_first [of
      "[''parent_id'' \<mapsto> Single ''p1'', ''priority'' \<mapsto> Single ''high'']"
      "\<lparr>sub_issue = Some False\<rparr>" "[''priority'' \<mapsto> ''priority'']"
      "\<lambda>s. ((), ())" "\<lambda>d r t. True" "\<lambda>v. ()" "[]" "[(''priority'', Some [''high''])]"]
  by (simp add: getFilteredIssues_def List.map_filter_simps)

text \<open>
  As claim C7 is worded, every issue with a parent is excluded when \<open>sub_issue\<close> is
  \<open>false\<close>. When the filters argument is \<^verbatim>\<open>undefined\<close> the issue is returned.
\<close>

theorem sub_issue_filter_no_filters_counterexample:
  "[''parent_id'' \<mapsto> Single ''p1''] ''parent_id'' \<noteq> Some Null
   \<and> sub_issue \<lparr>sub_issue = Some False\<rparr> = Some False
   \<and> getFilteredIssues Map.empty (\<lambda>s. ((), ())) (\<lambda>d r t. True) (\<lambda>v. ())
        [[''parent_id'' \<mapsto> Single ''p1'']] None (Some \<lparr>sub_issue = Some False\<rparr>)
      = [[''parent_id'' \<mapsto> Single ''p1'']]"
  by (simp add: getFilteredIssues_def)

text \<open>
  Claim C8. An issue whose \<open>target_date\<close> is \<^verbatim>\<open>null\<close> or absent fails the date check
  against every non-empty list of date expressions: the check returns \<open>false\<close>, whatever
  the date helpers are, and the evaluator excludes the issue when the filters hold such
  a \<open>target_date\<close> list. An empty or missing list of date expressions passes, whatever
  the issue and the helpers are.
\<close>

theorem missing_date_excluded:
  "(dateFilters \<noteq> [] \<and> (issue ''target_date'' = None \<or> issue ''target_date'' = Some Null) \<longrightarrow>
      checkIssueDateFilter parseDateFilter checkDateCriteria newDate issue ''target_date''
          (Some dateFilters) = False
      \<and> ((''target_date'', Some dateFilters) \<in> set entries \<longrightarrow>
          issue \<notin> set (getFilteredIssues FILTER_TO_ISSUE_MAP parseDateFilter checkDateCriteria
                          newDate issues (Some entries) displayFilters)))
   \<and> checkIssueDateFilter parseDateFilter checkDateCriteria newDate issue filterKey (Some []) = True
   \<and> checkIssueDateFilter parseDateFilter checkDateCriteria newDate issue filterKey None = True"
proof -
  have "\<not> field_passes FILTER_TO_ISSUE_MAP parseDateFilter checkDateCriteria newDate issue
          ''target_date'' dateFilters"
    if "dateFilters \<noteq> []" "issue ''target_date'' = None \<or> issue ''target_date'' = Some Null"
    using that checkIssueDateFilter_missing [of dateFilters issue "''target_date''"]
    by (simp add: field_passes_def)
  then show ?thesis
    unfolding getFilteredIssues_member
    by (auto simp: checkIssueDateFilter_def)
qed

theorem missing_date_excluded_witness:
  "[''2024-01-01;after''] \<noteq> []
   \<and> [''parent_id'' \<mapsto> Null, ''target_date'' \<mapsto> Null] ''target_date'' = Some Null
   \<and> checkIssueDateFilter (\<lambda>s. ((), ())) (\<lambda>d r t. True) (\<lambda>v. ())
        [''parent_id'' \<mapsto> Null, ''target_date'' \<mapsto> Null] ''target_date''
        (Some [''2024-01-01;after'']) = False
   \<and> getFilteredIssues Map.empty (\<lambda>s. ((), ())) (\<lambda>d r t. True) (\<lambda>v. ())
        [[''parent_id'' \<mapsto> Null, ''target_date'' \<mapsto> Null]]
        (Some [(''target_date'', Some [''2024-01-01;after''])]) None = []"
  using missing_date_excluded [of "[''2024-01-01;after'']"
      "[''parent_id'' \<mapsto> Null, ''target_date'' \<mapsto> Null]"
      "\<lambda>s. ((), ())" "\<lambda>d r t. True" "\<lambda>v. ()"
      "[(''target_date'', Some [''2024-01-01;after''])]" Map.empty
      "[[''parent_id'' \<mapsto> Null, ''target_date'' \<mapsto> Null]]" None]
  by (simp add: getFilteredIssues_def List.map_filter_simps checkIssueDateFilter_def)

text \<open>
  Claim C10. When the filters argument is \<^verbatim>\<open>undefined\<close> the evaluator returns the input
  list unchanged, whatever the issues and the display filters are: sub-items stay in
  the list even when \<open>sub_issue\<close> is \<open>false\<close>.
\<close>

theorem no_filters_returns_issues:
  "getFilteredIssues FILTER_TO_ISSUE_MAP parseDateFilter checkDateCriteria newDate
     issues None displayFilters = issues"
  by (simp add: getFilteredIssues_def)

theorem no_filters_returns_issues_witness:
  "getFilteredIssues Map.empty (\<lambda>s. ((), ())) (\<lambda>d r t. True) (\<lambda>v. ())
     [[''parent_id'' \<mapsto> Single ''p1''], [''parent_id'' \<mapsto> Null]] None
     (Some \<lparr>sub_issue = Some False\<rparr>)
   = [[''parent_id'' \<mapsto> Single ''p1''], [''parent_id'' \<mapsto> Null]]"
  using no_filters_returns_issues [of Map.empty "\<lambda>s. ((), ())" "\<lambda>d r t. True" "\<lambda>v. ()"
     "[[''parent_id'' \<mapsto> Single ''p1''], [''parent_id'' \<mapsto> Null]]"
     "Some \<lparr>sub_issue = Some False\<rparr>"]
  by simp

end
